theory Spec2Isabelle
  imports Complex_Main "HOL-Library.Char_ord" "HOL-Library.List_Lexorder" "HOL-Library.Sublist"
begin

section \<open>The probe service of \<open>function_app.py\<close>\<close>

text \<open>
  The module serves three HTTP routes: a health check, the catalog of trained probes found
  on disk (\<open>list_probes\<close>), and a prediction from one probe (\<open>predict\<close>). This theory
  embeds the two routes that carry logic, together with the parts of Python, pathlib and
  pydantic (version 2, whose \<open>field_validator\<close> and \<open>model_validate_json\<close> the module uses)
  that their behaviour rests on.

  Conventions of the embedding:
  \<^item> A Python \<open>str\<close> is a \<open>string\<close>; a \<open>char\<close> stands for the code point of the same number,
    so that names are restricted to code points below 256. The order on \<open>char\<close> is the
    order of code points, and lists are compared lexicographically, as Python compares
    strings and tuples.
  \<^item> A Python \<open>float\<close> is a \<open>real\<close>: rounding, infinities and NaN are outside the model.
  \<^item> An exception is a value of type \<open>exc\<close>; a computation that may raise returns
    \<open>exc + 'a\<close>, with \<open>Inl\<close> for the exception raised.
  \<^item> The file system is a tree of directories and files, resolved as Linux does, without
    symbolic links and without permission errors. A name is encoded in UTF-8; a part of
    more than 255 bytes and a path of more than 4095 bytes are refused by the operating
    system. \<open>Path.exists\<close> and \<open>Path.is_dir\<close> are those of Python 3.11: they answer
    \<open>False\<close> for a missing entry, a part below a file and a NUL character, and raise every
    other \<open>OSError\<close>.
\<close>

subsection \<open>Exceptions and validation errors\<close>

text \<open>
  An item of the \<open>loc\<close> tuple of a pydantic error: a field name or a list index.
\<close>

datatype loc_item = LStr string | LInt nat

text \<open>
  The message of a pydantic error, by kind. \<open>ValueErrorMsg s\<close> is the message pydantic
  builds from a \<open>ValueError(s)\<close> raised by a validator of the module.
\<close>

datatype vmsg =
    JsonInvalid
  | ModelType
  | MissingField
  | TypeMismatch
  | GreaterThanEqual
  | LessThanEqual
  | ValueErrorMsg string

record verr =
  loc :: "loc_item list"
  msg :: vmsg

text \<open>
  The exception classes the module can meet. \<open>NameTooLong\<close> is the \<open>OSError\<close> with the
  error number \<open>ENAMETOOLONG\<close>. \<open>OtherError s\<close> is any other subclass of \<open>Exception\<close>,
  with its text.
\<close>

datatype exc =
    ValidationError "verr list"
  | FileNotFoundError
  | NotADirectoryError
  | IsADirectoryError
  | NameTooLong
  | IndexError
  | ValueError
  | OtherError string

subsection \<open>Probe artifacts\<close>

type_synonym matrix = "real list list"

text \<open>
  What \<open>pickle.load\<close> yields is opaque to the module, which only asks for two attributes.
  \<open>predict_proba\<close> and \<open>predict_attr\<close> are \<open>None\<close> where \<open>hasattr\<close> is false; otherwise they
  hold the method, which raises or returns a two-dimensional array (its rows), respectively
  a one-dimensional array. A method returning anything else makes the handler raise at the
  attribute access or index that follows, which is represented as the method raising.
\<close>

datatype probe = Probe
  (predict_proba: "(matrix \<Rightarrow> exc + matrix) option")
  (predict_attr: "(matrix \<Rightarrow> exc + real list) option")

text \<open>The content of a file, as far as unpickling it is concerned.\<close>

datatype unpickled = LoadFails exc | Loads probe

subsection \<open>Paths and the file system\<close>

text \<open>
  An absolute POSIX path, as the parts below the root. An empty first part stands for the
  second slash of a path that starts with exactly two slashes, which pathlib keeps.
\<close>

type_synonym path = "string list"

datatype node = File unpickled | Dir "(string \<times> node) list"

text \<open>
  The entries of a directory are listed in the order the operating system iterates them,
  which is arbitrary; an entry is found by its name.
\<close>

fun split_slash :: "string \<Rightarrow> string list" where
  "split_slash [] = [[]]"
| "split_slash (c # cs) =
     (if c = CHR ''/'' then [] # split_slash cs
      else (case split_slash cs of [] \<Rightarrow> [[c]] | w # ws \<Rightarrow> (c # w) # ws))"

text \<open>pathlib drops empty parts and \<open>.\<close> parts when it parses a string, and keeps \<open>..\<close>.\<close>

definition parse_parts :: "string \<Rightarrow> path" where
  "parse_parts s = filter (\<lambda>p. p \<noteq> [] \<and> p \<noteq> ''.'') (split_slash s)"

text \<open>The root of an absolute string: two slashes when it starts with exactly two.\<close>

definition parse_root :: "string \<Rightarrow> path" where
  "parse_root s =
     (case s of
        c1 # c2 # rest \<Rightarrow>
          if c1 = CHR ''/'' \<and> c2 = CHR ''/'' \<and> (case rest of [] \<Rightarrow> True | c3 # _ \<Rightarrow> c3 \<noteq> CHR ''/'')
          then [[]] else []
      | _ \<Rightarrow> [])"

text \<open>
  The operator \<open>/\<close> of pathlib with a string on the right: a string that starts with a
  slash is absolute and replaces the path on the left.
\<close>

definition joinpath :: "path \<Rightarrow> string \<Rightarrow> path" where
  "joinpath p s =
     (case s of
        c # cs \<Rightarrow> if c = CHR ''/'' then parse_root s @ parse_parts s else p @ parse_parts s
      | [] \<Rightarrow> p)"

definition name :: "path \<Rightarrow> string" where
  "name p = (if p = [] then [] else last p)"

text \<open>
  The environment of the module: the file system and the directory that holds
  \<open>function_app.py\<close> (\<open>Path(__file__).parent\<close>).
\<close>

record env =
  fs_root :: node
  app_dir :: path

text \<open>
  The length in bytes of a name and of a path as the operating system receives them: a
  code point from 128 on takes two bytes in UTF-8, and every part follows a slash.
\<close>

definition utf8_len :: "string \<Rightarrow> nat" where
  "utf8_len s = length s + length (filter (\<lambda>c. 128 \<le> (of_char c :: nat)) s)"

definition path_bytes :: "path \<Rightarrow> nat" where
  "path_bytes p = (if p = [] then 1 else sum_list (map (\<lambda>c. utf8_len c + 1) p))"

text \<open>
  Resolution of a path by the operating system, from the root \<open>r\<close>. The second argument
  is the stack of the entries entered so far, the current one first, each with its name;
  with an empty stack the current directory is the root.
\<close>

definition current :: "node \<Rightarrow> (string \<times> node) list \<Rightarrow> node" where
  "current r st = (case st of [] \<Rightarrow> r | (_, n) # _ \<Rightarrow> n)"

text \<open>
  An empty part adds nothing. A part below a file fails with \<open>ENOTDIR\<close>. In a directory,
  \<open>..\<close> leaves it (the root is its own parent) and \<open>.\<close> stays; a name of more than 255
  bytes fails with \<open>ENAMETOOLONG\<close> and a name without an entry with \<open>ENOENT\<close>.
\<close>

fun walk :: "node \<Rightarrow> (string \<times> node) list \<Rightarrow> path \<Rightarrow> exc + (string \<times> node) list" where
  "walk r st [] = Inr st"
| "walk r st (c # cs) =
     (if c = [] then walk r st cs
      else (case current r st of
              File _ \<Rightarrow> Inl NotADirectoryError
            | Dir es \<Rightarrow>
                if c = ''..'' then walk r (tl st) cs
                else if c = ''.'' then walk r st cs
                else if 255 < utf8_len c then Inl NameTooLong
                else (case map_of es c of
                        None \<Rightarrow> Inl FileNotFoundError
                      | Some n \<Rightarrow> walk r ((c, n) # st) cs)))"

text \<open>
  A system call on a path: Python refuses a NUL character with \<open>ValueError\<close> before the
  call, the kernel refuses a path of more than 4095 bytes before it resolves it.
\<close>

definition lookup :: "env \<Rightarrow> path \<Rightarrow> exc + (string \<times> node) list" where
  "lookup e p =
     (if list_ex (\<lambda>c. CHR 0x00 \<in> set c) p then Inl ValueError
      else if 4095 < path_bytes p then Inl NameTooLong
      else walk (fs_root e) [] p)"

definition stat :: "env \<Rightarrow> path \<Rightarrow> exc + node" where
  "stat e p = (case lookup e p of Inl x \<Rightarrow> Inl x | Inr st \<Rightarrow> Inr (current (fs_root e) st))"

text \<open>The canonical path of what a path resolves to: the names of the entries entered.\<close>

definition realpath :: "env \<Rightarrow> path \<Rightarrow> path option" where
  "realpath e p = (case lookup e p of Inl _ \<Rightarrow> None | Inr st \<Rightarrow> Some (rev (map fst st)))"

text \<open>
  The errors that \<open>Path.exists\<close> and \<open>Path.is_dir\<close> take for the answer \<open>False\<close>; they
  raise the others.
\<close>

definition ignored :: "exc \<Rightarrow> bool" where
  "ignored x = (x = FileNotFoundError \<or> x = NotADirectoryError \<or> x = ValueError)"

definition path_exists :: "env \<Rightarrow> path \<Rightarrow> exc + bool" where
  "path_exists e p =
     (case stat e p of
        Inr _ \<Rightarrow> Inr True
      | Inl x \<Rightarrow> if ignored x then Inr False else Inl x)"

definition is_dir :: "env \<Rightarrow> path \<Rightarrow> exc + bool" where
  "is_dir e p =
     (case stat e p of
        Inr (Dir _) \<Rightarrow> Inr True
      | Inr (File _) \<Rightarrow> Inr False
      | Inl x \<Rightarrow> if ignored x then Inr False else Inl x)"

definition iterdir :: "env \<Rightarrow> path \<Rightarrow> exc + path list" where
  "iterdir e p =
     (case stat e p of
        Inr (Dir es) \<Rightarrow> Inr (map (\<lambda>n. p @ [n]) (map fst es))
      | Inr (File _) \<Rightarrow> Inl NotADirectoryError
      | Inl x \<Rightarrow> Inl x)"

definition probes_dir :: "env \<Rightarrow> path" where
  "probes_dir e = joinpath (joinpath (app_dir e) ''models'') ''trained_linear_probes''"

subsection \<open>Strings and integers\<close>

text \<open>
  \<open>str.isdigit\<close>: the string is not empty and every character is a digit. Below code
  point 256 the digits are \<open>0\<close> to \<open>9\<close> and the superscripts two, three and one.
\<close>

definition ascii_digit :: "char \<Rightarrow> bool" where
  "ascii_digit c = (CHR ''0'' \<le> c \<and> c \<le> CHR ''9'')"

definition char_isdigit :: "char \<Rightarrow> bool" where
  "char_isdigit c = (ascii_digit c \<or> c = CHR 0xB2 \<or> c = CHR 0xB3 \<or> c = CHR 0xB9)"

definition isdigit :: "string \<Rightarrow> bool" where
  "isdigit s = (s \<noteq> [] \<and> list_all char_isdigit s)"

definition digit_value :: "char \<Rightarrow> nat" where
  "digit_value c = of_char c - 48"

text \<open>
  \<open>int(s)\<close> on a string for which \<open>isdigit\<close> holds: the superscript digits are not
  decimal digits, and \<open>int\<close> raises \<open>ValueError\<close> on them.
\<close>

definition py_int :: "string \<Rightarrow> exc + int" where
  "py_int s =
     (if s \<noteq> [] \<and> list_all ascii_digit s
      then Inr (int (foldl (\<lambda>a c. 10 * a + digit_value c) 0 s))
      else Inl ValueError)"

definition digit_char :: "nat \<Rightarrow> char" where
  "digit_char d = char_of (48 + d)"

fun str_nat :: "nat \<Rightarrow> string" where
  "str_nat n = (if n < 10 then [digit_char n] else str_nat (n div 10) @ [digit_char (n mod 10)])"

definition py_str :: "int \<Rightarrow> string" where
  "py_str i = (if i < 0 then CHR ''-'' # str_nat (nat (- i)) else str_nat (nat i))"

subsection \<open>The response models and the catalog\<close>

record PredictRequest =
  model :: string
  probe_type :: string
  layer :: int
  primary_activations :: "real list"
  text_activations :: "real list"

record PredictResponse =
  model :: string
  probe_type :: string
  layer :: int
  predicted_probability :: real

record ProbeInfo =
  model :: string
  probe_type :: string
  layers :: "int list"

text \<open>
  The loop of \<open>_get_available_layers\<close> over the sorted entries of the model directory,
  with the list of layers built so far.
\<close>

fun layers_loop :: "env \<Rightarrow> path list \<Rightarrow> int list \<Rightarrow> exc + int list" where
  "layers_loop e [] ls = Inr ls"
| "layers_loop e (layer_dir # rest) ls =
     (case is_dir e layer_dir of
        Inl x \<Rightarrow> Inl x
      | Inr d \<Rightarrow>
          if d \<and> isdigit (name layer_dir) then
            (case py_int (name layer_dir) of
               Inl x \<Rightarrow> Inl x
             | Inr layer_num \<Rightarrow>
                 (case path_exists e (joinpath layer_dir ''config.json'') of
                    Inl x \<Rightarrow> Inl x
                  | Inr c \<Rightarrow>
                      if \<not> c then layers_loop e rest ls
                      else (case path_exists e (joinpath layer_dir ''model.pickle'') of
                              Inl x \<Rightarrow> Inl x
                            | Inr m \<Rightarrow>
                                if m then layers_loop e rest (ls @ [layer_num])
                                else layers_loop e rest ls)))
          else layers_loop e rest ls)"

text \<open>
  \<open>sorted(model_dir.iterdir())\<close> sorts the paths, which pathlib compares by their parts:
  the entries of one directory are ordered by their names as strings.
\<close>

definition get_available_layers :: "env \<Rightarrow> path \<Rightarrow> exc + int list" where
  "get_available_layers e model_dir =
     (case iterdir e model_dir of
        Inl x \<Rightarrow> Inl x
      | Inr ps \<Rightarrow> layers_loop e (sort ps) [])"

fun discover_loop :: "env \<Rightarrow> path list \<Rightarrow> ProbeInfo list \<Rightarrow> exc + ProbeInfo list" where
  "discover_loop e [] probes = Inr probes"
| "discover_loop e (model_dir # rest) probes =
     (case is_dir e model_dir of
        Inl x \<Rightarrow> Inl x
      | Inr d \<Rightarrow>
          if \<not> d then discover_loop e rest probes
          else (case get_available_layers e model_dir of
                  Inl x \<Rightarrow> Inl x
                | Inr ls \<Rightarrow>
                    if ls \<noteq> []
                    then discover_loop e rest
                           (probes @ [\<lparr>ProbeInfo.model = name model_dir,
                                       probe_type = ''linear_probe'', layers = ls\<rparr>])
                    else discover_loop e rest probes))"

definition discover_probes :: "env \<Rightarrow> path \<Rightarrow> exc + ProbeInfo list" where
  "discover_probes e pd =
     (case path_exists e pd of
        Inl x \<Rightarrow> Inl x
      | Inr ex \<Rightarrow>
          if \<not> ex then Inr []
          else (case iterdir e pd of
                  Inl x \<Rightarrow> Inl x
                | Inr ps \<Rightarrow> discover_loop e ps []))"

subsection \<open>HTTP responses\<close>

text \<open>
  The body of a response, before it is serialised as JSON: \<open>ErrorBody s\<close> is
  \<open>{"error": s}\<close>, \<open>InternalErrorBody x\<close> is \<open>{"error": "Internal server error: " + str(x)}\<close>,
  and \<open>ValidationFailed ds\<close> is \<open>{"error": "Validation failed", "details": ds}\<close> with one
  \<open>{"field", "message"}\<close> pair per element of \<open>ds\<close>.
\<close>

datatype body =
    ErrorBody string
  | InternalErrorBody exc
  | ValidationFailed "(loc_item \<times> vmsg) list"
  | PredictBody PredictResponse
  | ProbesBody "ProbeInfo list"

record response =
  status_code :: nat
  body :: body

definition list_probes :: "env \<Rightarrow> response" where
  "list_probes e =
     (case discover_probes e (probes_dir e) of
        Inr probes \<Rightarrow> \<lparr>status_code = 200, body = ProbesBody probes\<rparr>
      | Inl x \<Rightarrow> \<lparr>status_code = 500, body = InternalErrorBody x\<rparr>)"

subsection \<open>Request validation\<close>

text \<open>
  The body of a request, as pydantic sees it. A body that is not JSON, or that is JSON but
  not an object, fails as a whole. In an object each field of \<open>PredictRequest\<close> is absent,
  is of the wrong type (with the places, below the field, of the type errors pydantic
  reports; at least one), or carries a value of the declared type. Fields the model does
  not declare are ignored. pydantic refuses an integer of more than 4300 digits, the limit
  up to which \<open>str\<close> converts an integer: a layer that is well typed has no more.
\<close>

datatype 'a field_in = Missing | IllTyped "loc_item list" "loc_item list list" | WellTyped 'a

text \<open>
  An element of a JSON array as the type \<open>float\<close> sees it: a value that validates as a
  number, or one that does not. An activation field that is well typed is an array; its
  elements are validated one by one.
\<close>

datatype jnum = Num real | NotNum

record raw_request =
  raw_model :: "string field_in"
  raw_probe_type :: "string field_in"
  raw_layer :: "int field_in"
  raw_primary_activations :: "jnum list field_in"
  raw_text_activations :: "jnum list field_in"

datatype body_in = NotJson | NotObject | Object raw_request

text \<open>
  The validator of the two activation fields; \<open>Inl\<close> is the text of the \<open>ValueError\<close>.
\<close>

definition validate_activations_length :: "real list \<Rightarrow> string + real list" where
  "validate_activations_length v =
     (if length v \<noteq> 4096 then Inl ''Activations must have exactly 4096 dimensions''
      else Inr v)"

text \<open>The constraint \<open>ge=0\<close> of the field \<open>layer\<close>.\<close>

definition check_layer :: "int \<Rightarrow> vmsg option" where
  "check_layer l = (if l \<ge> 0 then None else Some GreaterThanEqual)"

definition check_activations :: "real list \<Rightarrow> vmsg option" where
  "check_activations v =
     (case validate_activations_length v of Inl s \<Rightarrow> Some (ValueErrorMsg s) | Inr _ \<Rightarrow> None)"

text \<open>
  Validation of one field: the type first, then the constraint, which runs on a value of
  the right type only. A field has no default unless one is given.
\<close>

definition validate_field ::
  "string \<Rightarrow> 'a option \<Rightarrow> ('a \<Rightarrow> vmsg option) \<Rightarrow> 'a field_in \<Rightarrow> verr list + 'a" where
  "validate_field fname dflt check fin =
     (case fin of
        Missing \<Rightarrow>
          (case dflt of
             None \<Rightarrow> Inl [\<lparr>loc = [LStr fname], msg = MissingField\<rparr>]
           | Some d \<Rightarrow> Inr d)
      | IllTyped l ls \<Rightarrow> Inl (map (\<lambda>sub. \<lparr>loc = LStr fname # sub, msg = TypeMismatch\<rparr>) (l # ls))
      | WellTyped v \<Rightarrow>
          (case check v of
             Some m \<Rightarrow> Inl [\<lparr>loc = [LStr fname], msg = m\<rparr>]
           | None \<Rightarrow> Inr v))"

definition errors_of :: "verr list + 'a \<Rightarrow> verr list" where
  "errors_of r = (case r of Inl es \<Rightarrow> es | Inr _ \<Rightarrow> [])"

text \<open>
  Validation of \<open>List[float]\<close>: an array with elements that are not numbers is ill typed at
  the index of each of them, in their order; an array of numbers is the list of their
  values.
\<close>

definition bad_indices :: "jnum list \<Rightarrow> nat list" where
  "bad_indices xs = map fst (filter (\<lambda>ix. snd ix = NotNum) (enumerate 0 xs))"

definition num_value :: "jnum \<Rightarrow> real" where
  "num_value x = (case x of Num v \<Rightarrow> v | NotNum \<Rightarrow> 0)"

definition floats_of :: "jnum list field_in \<Rightarrow> real list field_in" where
  "floats_of fin =
     (case fin of
        Missing \<Rightarrow> Missing
      | IllTyped l ls \<Rightarrow> IllTyped l ls
      | WellTyped xs \<Rightarrow>
          (case bad_indices xs of
             [] \<Rightarrow> WellTyped (map num_value xs)
           | i # js \<Rightarrow> IllTyped [LInt i] (map (\<lambda>j. [LInt j]) js)))"

text \<open>
  \<open>PredictRequest.model_validate_json\<close>: the fields are validated in the order of their
  declaration, and the errors of all of them are collected.
\<close>

definition model_validate_json :: "body_in \<Rightarrow> exc + PredictRequest" where
  "model_validate_json b =
     (case b of
        NotJson \<Rightarrow> Inl (ValidationError [\<lparr>loc = [], msg = JsonInvalid\<rparr>])
      | NotObject \<Rightarrow> Inl (ValidationError [\<lparr>loc = [], msg = ModelType\<rparr>])
      | Object r \<Rightarrow>
          (let vm = validate_field ''model'' None (\<lambda>_. None) (raw_model r);
               vp = validate_field ''probe_type'' (Some ''linear_probe'') (\<lambda>_. None)
                      (raw_probe_type r);
               vl = validate_field ''layer'' None check_layer (raw_layer r);
               va = validate_field ''primary_activations'' None check_activations
                      (floats_of (raw_primary_activations r));
               vt = validate_field ''text_activations'' None check_activations
                      (floats_of (raw_text_activations r))
           in case (vm, vp, vl, va, vt) of
                (Inr m, Inr p, Inr l, Inr a, Inr t) \<Rightarrow>
                  Inr \<lparr>PredictRequest.model = m, probe_type = p, layer = l,
                       primary_activations = a, text_activations = t\<rparr>
              | _ \<Rightarrow> Inl (ValidationError
                         (errors_of vm @ errors_of vp @ errors_of vl @ errors_of va
                          @ errors_of vt))))"

text \<open>
  The constructor of \<open>PredictResponse\<close>, whose probability is constrained by \<open>ge=0.0\<close>
  and \<open>le=1.0\<close>.
\<close>

definition PredictResponse_init :: "string \<Rightarrow> string \<Rightarrow> int \<Rightarrow> real \<Rightarrow> exc + PredictResponse" where
  "PredictResponse_init m p l q =
     (if \<not> 0 \<le> q
      then Inl (ValidationError [\<lparr>loc = [LStr ''predicted_probability''], msg = GreaterThanEqual\<rparr>])
      else if \<not> q \<le> 1
      then Inl (ValidationError [\<lparr>loc = [LStr ''predicted_probability''], msg = LessThanEqual\<rparr>])
      else Inr \<lparr>PredictResponse.model = m, probe_type = p, layer = l,
                predicted_probability = q\<rparr>)"

subsection \<open>The prediction route\<close>

text \<open>\<open>open\<close> of the artifact and \<open>pickle.load\<close> of what it holds.\<close>

definition open_and_load :: "env \<Rightarrow> path \<Rightarrow> exc + probe" where
  "open_and_load e p =
     (case stat e p of
        Inl x \<Rightarrow> Inl x
      | Inr (Dir _) \<Rightarrow> Inl IsADirectoryError
      | Inr (File (LoadFails x)) \<Rightarrow> Inl x
      | Inr (File (Loads pm)) \<Rightarrow> Inr pm)"

text \<open>
  The path of the artifact of a request: the probes directory joined with the model
  string, the layer and the file name.
\<close>

definition model_file_of :: "env \<Rightarrow> PredictRequest \<Rightarrow> path" where
  "model_file_of e r =
     joinpath (joinpath (joinpath (probes_dir e) (PredictRequest.model r))
                 (py_str (PredictRequest.layer r)))
       ''model.pickle''"

definition not_found_msg :: "PredictRequest \<Rightarrow> string" where
  "not_found_msg r =
     ''Probe not found for model '' @ [CHR 0x27] @ PredictRequest.model r @ [CHR 0x27]
       @ '' at layer '' @ py_str (PredictRequest.layer r)"

text \<open>
  The probability taken from the output of \<open>predict_proba\<close>: column 1 of row 0 when the
  array has more than one column, column 0 of row 0 otherwise. An index out of range
  raises \<open>IndexError\<close>.
\<close>

definition proba_of :: "matrix \<Rightarrow> exc + real" where
  "proba_of pp =
     (case pp of
        [] \<Rightarrow> Inl IndexError
      | row0 # _ \<Rightarrow>
          if length row0 > 1 then Inr (row0 ! 1)
          else (case row0 of [] \<Rightarrow> Inl IndexError | x # _ \<Rightarrow> Inr x))"

definition first_of :: "real list \<Rightarrow> exc + real" where
  "first_of prediction = (case prediction of [] \<Rightarrow> Inl IndexError | x # _ \<Rightarrow> Inr x)"

text \<open>
  The difference of the two activation vectors, as an array of one row.
\<close>

definition delta_of :: "PredictRequest \<Rightarrow> matrix" where
  "delta_of r = [map2 (-) (primary_activations r) (text_activations r)]"

definition ok_response :: "PredictResponse \<Rightarrow> response" where
  "ok_response r = \<lparr>status_code = 200, body = PredictBody r\<rparr>"

definition respond :: "PredictRequest \<Rightarrow> real \<Rightarrow> exc + response" where
  "respond r q =
     (case PredictResponse_init (PredictRequest.model r) (PredictRequest.probe_type r)
             (PredictRequest.layer r) q of
        Inl x \<Rightarrow> Inl x
      | Inr resp \<Rightarrow> Inr (ok_response resp))"

text \<open>The body of the \<open>try\<close> statement of \<open>predict\<close>: a response, or the exception raised.\<close>

definition predict_try :: "env \<Rightarrow> body_in \<Rightarrow> exc + response" where
  "predict_try e b =
     (case model_validate_json b of
        Inl x \<Rightarrow> Inl x
      | Inr request_data \<Rightarrow>
          (let model_file = model_file_of e request_data in
           case path_exists e model_file of
             Inl x \<Rightarrow> Inl x
           | Inr found \<Rightarrow>
               if \<not> found
               then Inr \<lparr>status_code = 404, body = ErrorBody (not_found_msg request_data)\<rparr>
               else (case open_and_load e model_file of
                       Inl x \<Rightarrow> Inl x
                     | Inr probe_model \<Rightarrow>
                         (let delta = delta_of request_data in
                          case predict_proba probe_model of
                            Some f \<Rightarrow>
                              (case f delta of
                                 Inl x \<Rightarrow> Inl x
                               | Inr prediction_proba \<Rightarrow>
                                   (case proba_of prediction_proba of
                                      Inl x \<Rightarrow> Inl x
                                    | Inr q \<Rightarrow> respond request_data q))
                          | None \<Rightarrow>
                              (case predict_attr probe_model of
                                 Some g \<Rightarrow>
                                   (case g delta of
                                      Inl x \<Rightarrow> Inl x
                                    | Inr prediction \<Rightarrow>
                                        (case first_of prediction of
                                           Inl x \<Rightarrow> Inl x
                                         | Inr q \<Rightarrow> respond request_data q))
                               | None \<Rightarrow>
                                   Inr \<lparr>status_code = 500,
                                        body = ErrorBody
                                                 ''Probe model does not support prediction''\<rparr>)))))"

text \<open>
  The list of details of the handler of \<open>ValidationError\<close>: \<open>err["loc"][-1]\<close> raises
  \<open>IndexError\<close> on an empty \<open>loc\<close>.
\<close>

fun details_of :: "verr list \<Rightarrow> exc + (loc_item \<times> vmsg) list" where
  "details_of [] = Inr []"
| "details_of (err # errs) =
     (if loc err = [] then Inl IndexError
      else (case details_of errs of
              Inl x \<Rightarrow> Inl x
            | Inr ds \<Rightarrow> Inr ((last (loc err), msg err) # ds)))"

text \<open>
  \<open>predict\<close> with its three handlers. An exception raised inside a handler is not caught by
  the handlers beside it and leaves the function: that is the result \<open>Inl\<close>.
\<close>

definition predict :: "env \<Rightarrow> body_in \<Rightarrow> exc + response" where
  "predict e b =
     (case predict_try e b of
        Inr r \<Rightarrow> Inr r
      | Inl (ValidationError errs) \<Rightarrow>
          (case details_of errs of
             Inl x \<Rightarrow> Inl x
           | Inr ds \<Rightarrow> Inr \<lparr>status_code = 400, body = ValidationFailed ds\<rparr>)
      | Inl FileNotFoundError \<Rightarrow>
          Inr \<lparr>status_code = 404, body = ErrorBody ''Probe file not found''\<rparr>
      | Inl x \<Rightarrow> Inr \<lparr>status_code = 500, body = InternalErrorBody x\<rparr>)"

subsection \<open>Notions used to state the properties\<close>

text \<open>
  The test of the loop body of \<open>_get_available_layers\<close>: the entry is a directory whose name
  reads as the layer \<open>l\<close> and which holds both files.
\<close>

definition qualifies :: "env \<Rightarrow> path \<Rightarrow> int \<Rightarrow> bool" where
  "qualifies e layer_dir l =
     (is_dir e layer_dir = Inr True \<and> isdigit (name layer_dir)
      \<and> py_int (name layer_dir) = Inr l
      \<and> path_exists e (joinpath layer_dir ''config.json'') = Inr True
      \<and> path_exists e (joinpath layer_dir ''model.pickle'') = Inr True)"

text \<open>\<open>p\<close> is one of the entries that iterating the directory \<open>d\<close> yields.\<close>

definition listed :: "env \<Rightarrow> path \<Rightarrow> path \<Rightarrow> bool" where
  "listed e d p = (case iterdir e d of Inr ps \<Rightarrow> p \<in> set ps | Inl _ \<Rightarrow> False)"







subsection \<open>Example repositories and requests\<close>

definition zeros :: "real list" where
  "zeros = replicate 4096 0"

text \<open>A body that validates, without \<open>probe_type\<close>, and the request it validates to.\<close>

definition valid_body :: "string \<Rightarrow> int \<Rightarrow> body_in" where
  "valid_body m l =
     Object \<lparr>raw_model = WellTyped m, raw_probe_type = Missing, raw_layer = WellTyped l,
             raw_primary_activations = WellTyped (map Num zeros),
             raw_text_activations = WellTyped (map Num zeros)\<rparr>"

definition valid_request :: "string \<Rightarrow> int \<Rightarrow> PredictRequest" where
  "valid_request m l =
     \<lparr>PredictRequest.model = m, probe_type = ''linear_probe'', layer = l,
      primary_activations = zeros, text_activations = zeros\<rparr>"




text \<open>Probes whose methods return a fixed output.\<close>

definition proba_probe :: "matrix \<Rightarrow> probe" where
  "proba_probe out = Probe (Some (\<lambda>_. Inr out)) None"

definition label_probe :: "real list \<Rightarrow> probe" where
  "label_probe out = Probe None (Some (\<lambda>_. Inr out))"

definition config_file :: node where
  "config_file = File (LoadFails (OtherError ''UnpicklingError''))"

text \<open>A layer directory with both files.\<close>

definition layer_node :: "probe \<Rightarrow> node" where
  "layer_node p = Dir [(''config.json'', config_file), (''model.pickle'', File (Loads p))]"

text \<open>
  The module deployed in \<open>/app\<close>, with the given model directories in the repository and
  the given other entries beside \<open>models\<close>.
\<close>

definition repo :: "(string \<times> node) list \<Rightarrow> (string \<times> node) list \<Rightarrow> env" where
  "repo models others =
     \<lparr>fs_root = Dir [(''app'', Dir ((''models'', Dir [(''trained_linear_probes'', Dir models)])
                                    # others))],
      app_dir = [''app'']\<rparr>"

definition two_ten :: "(string \<times> node) list" where
  "two_ten = [(''2'', layer_node (proba_probe [[0.1, 0.9]])),
              (''10'', layer_node (proba_probe [[0.1, 0.9]]))]"

definition no_config :: env where
  "no_config =
     repo [(''m'', Dir [(''3'', Dir [(''model.pickle'', File (Loads (proba_probe [[0.1, 0.9]])))])])] []"

definition one_layer :: env where
  "one_layer = repo [(''m'', Dir [(''3'', layer_node (proba_probe [[0.1, 0.9]]))])] []"

definition four_probes :: env where
  "four_probes =
     repo [(''m'', Dir [(''0'', layer_node (proba_probe [[0.1, 0.9]])),
                        (''1'', layer_node (proba_probe [[0.7]])),
                        (''2'', layer_node (label_probe [1])),
                        (''3'', layer_node (Probe None None)),
                        (''4'', layer_node (label_probe [2])),
                        (''5'', Dir [])]),
           (''unused'', Dir [(''x'', Dir [])]),
           (''README'', config_file)] []"

definition no_repo :: env where
  "no_repo = \<lparr>fs_root = Dir [(''app'', Dir [])], app_dir = [''app'']\<rparr>"

definition outside :: env where
  "outside = repo [] [(''outside'', Dir [(''0'', layer_node (proba_probe [[0.1, 0.9]]))])]"

section \<open>Auxiliary facts\<close>

subsection \<open>Paths\<close>



















lemma iterdir_children: "iterdir e d = Inr ps \<Longrightarrow> p \<in> set ps \<Longrightarrow> p = d @ [name p]"
  by (auto simp: iterdir_def name_def split: sum.splits node.splits)

lemma listed_child: "listed e d p \<Longrightarrow> p = d @ [name p]"
  by (auto simp: listed_def dest: iterdir_children split: sum.splits)


subsection \<open>Decimal strings\<close>




declare str_nat.simps [simp del]









lemma py_str_small:
  "py_str 0 = ''0''" "py_str 1 = ''1''" "py_str 2 = ''2''" "py_str 3 = ''3''"
  "py_str 4 = ''4''" "py_str 5 = ''5''"
  by code_simp+

subsection \<open>The loops of the catalog\<close>

lemma layers_loop_cases:
  assumes "layers_loop e (p # ps) ls = Inr r"
  shows "layers_loop e ps ls = Inr r
         \<or> (\<exists>n. qualifies e p n \<and> layers_loop e ps (ls @ [n]) = Inr r)"
  using assms by (auto simp: qualifies_def split: sum.splits if_splits)


text \<open>Every layer the loop returns was there before or comes from a qualifying entry.\<close>

lemma layers_loop_sound:
  "layers_loop e ps ls = Inr r \<Longrightarrow> l \<in> set r \<Longrightarrow> l \<in> set ls \<or> (\<exists>p\<in>set ps. qualifies e p l)"
proof (induction ps arbitrary: ls)
  case Nil
  then show ?case by simp
next
  case (Cons p ps)
  from layers_loop_cases[OF Cons.prems(1)] show ?case
  proof (elim disjE exE conjE)
    assume "layers_loop e ps ls = Inr r"
    from Cons.IH[OF this Cons.prems(2)] show ?thesis by auto
  next
    fix n
    assume q: "qualifies e p n" and "layers_loop e ps (ls @ [n]) = Inr r"
    from Cons.IH[OF this(2) Cons.prems(2)] q show ?thesis by auto
  qed
qed



lemma discover_loop_cases:
  assumes "discover_loop e (p # ps) acc = Inr r"
  shows "discover_loop e ps acc = Inr r
         \<or> (\<exists>ls. is_dir e p = Inr True \<and> get_available_layers e p = Inr ls \<and> ls \<noteq> []
               \<and> discover_loop e ps
                    (acc @ [\<lparr>ProbeInfo.model = name p, probe_type = ''linear_probe'',
                             layers = ls\<rparr>]) = Inr r)"
  using assms by (auto split: if_splits sum.splits)

lemma discover_loop_sound:
  "discover_loop e ps acc = Inr r \<Longrightarrow> info \<in> set r \<Longrightarrow>
     info \<in> set acc \<or> (\<exists>p\<in>set ps. is_dir e p = Inr True \<and> ProbeInfo.model info = name p
                          \<and> get_available_layers e p = Inr (layers info) \<and> layers info \<noteq> [])"
proof (induction ps arbitrary: acc)
  case Nil
  then show ?case by simp
next
  case (Cons p ps)
  from discover_loop_cases[OF Cons.prems(1)] show ?case
  proof (elim disjE exE conjE)
    assume "discover_loop e ps acc = Inr r"
    from Cons.IH[OF this Cons.prems(2)] show ?thesis by auto
  next
    fix ls
    assume h: "is_dir e p = Inr True" "get_available_layers e p = Inr ls" "ls \<noteq> []"
      and "discover_loop e ps
             (acc @ [\<lparr>ProbeInfo.model = name p, probe_type = ''linear_probe'', layers = ls\<rparr>])
           = Inr r"
    from Cons.IH[OF this(4) Cons.prems(2)] h show ?thesis by auto
  qed
qed




lemma discover_probes_Inr:
  "discover_probes e d = Inr probes \<Longrightarrow>
     (path_exists e d = Inr False \<and> probes = [])
     \<or> (\<exists>ps. path_exists e d = Inr True \<and> iterdir e d = Inr ps
              \<and> discover_loop e ps [] = Inr probes)"
  by (auto simp: discover_probes_def split: if_splits sum.splits)

lemma list_probes_200:
  "list_probes e = \<lparr>status_code = 200, body = ProbesBody probes\<rparr> \<Longrightarrow>
   discover_probes e (probes_dir e) = Inr probes"
  by (auto simp: list_probes_def split: sum.splits)

text \<open>An entry of the catalog comes from a listed model directory and carries its layers.\<close>

lemma catalog_entry:
  assumes "list_probes e = \<lparr>status_code = 200, body = ProbesBody probes\<rparr>"
    and "info \<in> set probes"
  shows "\<exists>p. listed e (probes_dir e) p \<and> is_dir e p = Inr True \<and> ProbeInfo.model info = name p
             \<and> get_available_layers e p = Inr (layers info) \<and> layers info \<noteq> []"
proof -
  from list_probes_200[OF assms(1)] have "discover_probes e (probes_dir e) = Inr probes" .
  from discover_probes_Inr[OF this] assms(2) obtain ps where
    ps: "iterdir e (probes_dir e) = Inr ps" "discover_loop e ps [] = Inr probes" by auto
  from discover_loop_sound[OF ps(2) assms(2)] ps(1) show ?thesis
    by (auto simp: listed_def)
qed

lemma layers_entry:
  assumes "get_available_layers e d = Inr ls" and "l \<in> set ls"
  shows "\<exists>p. listed e d p \<and> qualifies e p l"
proof -
  from assms(1) obtain ps where
    ps: "iterdir e d = Inr ps" "layers_loop e (sort ps) [] = Inr ls"
    by (auto simp: get_available_layers_def split: sum.splits)
  from layers_loop_sound[OF ps(2) assms(2)] ps(1) show ?thesis
    by (auto simp: listed_def)
qed


subsection \<open>Validation\<close>

lemma bad_indices_none: "NotNum \<notin> set xs \<Longrightarrow> bad_indices xs = []"
  by (auto simp: bad_indices_def filter_empty_conv in_set_enumerate_eq) (metis nth_mem)

lemma floats_of_nums: "floats_of (WellTyped (map Num v)) = WellTyped v"
proof -
  have "bad_indices (map Num v) = []"
    by (rule bad_indices_none) auto
  moreover have "map num_value (map Num v) = v"
    by (simp add: num_value_def o_def)
  ultimately show ?thesis
    by (simp add: floats_of_def)
qed




lemma zeros_length: "length zeros = 4096"
  by (simp add: zeros_def)

lemma valid_body_ok: "0 \<le> l \<Longrightarrow> model_validate_json (valid_body m l) = Inr (valid_request m l)"
  by (simp add: model_validate_json_def valid_body_def valid_request_def validate_field_def
      check_layer_def check_activations_def validate_activations_length_def zeros_length
      floats_of_nums)










subsection \<open>The prediction route\<close>






lemma respond_in_range:
  "0 \<le> q \<Longrightarrow> q \<le> 1 \<Longrightarrow>
   respond r q = Inr (ok_response \<lparr>PredictResponse.model = PredictRequest.model r,
      probe_type = PredictRequest.probe_type r, layer = PredictRequest.layer r,
      predicted_probability = q\<rparr>)"
  by (auto simp: respond_def PredictResponse_init_def)

lemma respond_out_of_range:
  "q < 0 \<or> 1 < q \<Longrightarrow>
   \<exists>m. respond r q
        = Inl (ValidationError [\<lparr>loc = [LStr ''predicted_probability''], msg = m\<rparr>])"
  by (auto simp: respond_def PredictResponse_init_def)

text \<open>The body of the \<open>try\<close> statement once the artifact has been loaded.\<close>

lemma predict_try_loaded:
  assumes "model_validate_json b = Inr r"
    and "stat e (model_file_of e r) = Inr (File (Loads pm))"
  shows "predict_try e b =
     (case predict_proba pm of
        Some f \<Rightarrow>
          (case f (delta_of r) of
             Inl x \<Rightarrow> Inl x
           | Inr pp \<Rightarrow> (case proba_of pp of Inl x \<Rightarrow> Inl x | Inr q \<Rightarrow> respond r q))
      | None \<Rightarrow>
          (case predict_attr pm of
             Some g \<Rightarrow>
               (case g (delta_of r) of
                  Inl x \<Rightarrow> Inl x
                | Inr pr \<Rightarrow> (case first_of pr of Inl x \<Rightarrow> Inl x | Inr q \<Rightarrow> respond r q))
           | None \<Rightarrow>
               Inr \<lparr>status_code = 500,
                    body = ErrorBody ''Probe model does not support prediction''\<rparr>))"
  using assms by (simp add: predict_try_def path_exists_def open_and_load_def Let_def)

lemma predict_of_try: "predict_try e b = Inr x \<Longrightarrow> predict e b = Inr x"
  by (simp add: predict_def)

lemma predict_200:
  assumes "predict e b = Inr (ok_response resp)"
  shows "predict_try e b = Inr (ok_response resp)"
proof (cases "predict_try e b")
  case (Inr x)
  with assms show ?thesis by (simp add: predict_def)
next
  case (Inl x)
  with assms show ?thesis
    by (cases x) (auto simp: predict_def ok_response_def split: sum.splits)
qed

lemma respond_ok:
  "respond r q = Inr (ok_response resp) \<Longrightarrow> predicted_probability resp = q"
  by (auto simp: respond_def PredictResponse_init_def ok_response_def split: if_splits)

lemma proba_of_Inr:
  "proba_of pp = Inr q \<Longrightarrow>
   \<exists>row0 rows. pp = row0 # rows \<and> ((2 \<le> length row0 \<and> q = row0 ! 1) \<or> row0 = [q])"
  by (cases pp) (auto simp: proba_of_def split: if_splits list.splits)

lemma first_of_Inr: "first_of pr = Inr q \<Longrightarrow> \<exists>xs. pr = q # xs"
  by (cases pr) (auto simp: first_of_def)

lemma returned_probability:
  assumes "model_validate_json b = Inr r"
    and "stat e (model_file_of e r) = Inr (File (Loads pm))"
    and "predict e b = Inr (ok_response resp)"
  shows "(\<forall>f pp. predict_proba pm = Some f \<and> f (delta_of r) = Inr pp
           \<longrightarrow> (\<exists>row0 rows. pp = row0 # rows
                  \<and> ((2 \<le> length row0 \<and> predicted_probability resp = row0 ! 1)
                      \<or> row0 = [predicted_probability resp])))
       \<and> (\<forall>g pr. predict_proba pm = None \<and> predict_attr pm = Some g \<and> g (delta_of r) = Inr pr
           \<longrightarrow> (\<exists>xs. pr = predicted_probability resp # xs))"
proof (intro conjI allI impI)
  fix f pp
  assume h: "predict_proba pm = Some f \<and> f (delta_of r) = Inr pp"
  from predict_200[OF assms(3)] h obtain q where "proba_of pp = Inr q" "respond r q = Inr (ok_response resp)"
    by (auto simp: predict_try_loaded[OF assms(1,2)] split: sum.splits)
  with proba_of_Inr[of pp q] respond_ok[of r q resp]
  show "\<exists>row0 rows. pp = row0 # rows
                  \<and> ((2 \<le> length row0 \<and> predicted_probability resp = row0 ! 1)
                      \<or> row0 = [predicted_probability resp])" by auto
next
  fix g pr
  assume h: "predict_proba pm = None \<and> predict_attr pm = Some g \<and> g (delta_of r) = Inr pr"
  from predict_200[OF assms(3)] h obtain q where "first_of pr = Inr q" "respond r q = Inr (ok_response resp)"
    by (auto simp: predict_try_loaded[OF assms(1,2)] split: sum.splits)
  with first_of_Inr[of pr q] respond_ok[of r q resp]
  show "\<exists>xs. pr = predicted_probability resp # xs" by auto
qed

text \<open>The probability that is selected, when it lies in the range of the response.\<close>

lemma selected_probability:
  assumes "model_validate_json b = Inr r"
    and "stat e (model_file_of e r) = Inr (File (Loads pm))"
  shows "(\<forall>f row0 rows. predict_proba pm = Some f \<and> f (delta_of r) = Inr (row0 # rows)
             \<and> 2 \<le> length row0 \<and> 0 \<le> row0 ! 1 \<and> row0 ! 1 \<le> 1
           \<longrightarrow> predict e b = Inr (ok_response \<lparr>PredictResponse.model = PredictRequest.model r,
                  probe_type = PredictRequest.probe_type r, layer = PredictRequest.layer r,
                  predicted_probability = row0 ! 1\<rparr>))
        \<and> (\<forall>f x rows. predict_proba pm = Some f \<and> f (delta_of r) = Inr ([x] # rows)
             \<and> 0 \<le> x \<and> x \<le> 1
           \<longrightarrow> predict e b = Inr (ok_response \<lparr>PredictResponse.model = PredictRequest.model r,
                  probe_type = PredictRequest.probe_type r, layer = PredictRequest.layer r,
                  predicted_probability = x\<rparr>))
        \<and> (\<forall>g x xs. predict_proba pm = None \<and> predict_attr pm = Some g
             \<and> g (delta_of r) = Inr (x # xs) \<and> 0 \<le> x \<and> x \<le> 1
           \<longrightarrow> predict e b = Inr (ok_response \<lparr>PredictResponse.model = PredictRequest.model r,
                  probe_type = PredictRequest.probe_type r, layer = PredictRequest.layer r,
                  predicted_probability = x\<rparr>))
        \<and> (predict_proba pm = None \<and> predict_attr pm = None
           \<longrightarrow> predict e b = Inr \<lparr>status_code = 500,
                  body = ErrorBody ''Probe model does not support prediction''\<rparr>)"
proof (intro conjI allI impI)
  fix f row0 rows
  assume "predict_proba pm = Some f \<and> f (delta_of r) = Inr (row0 # rows)
             \<and> 2 \<le> length row0 \<and> 0 \<le> row0 ! 1 \<and> row0 ! 1 \<le> 1"
  then have "predict_try e b
             = Inr (ok_response \<lparr>PredictResponse.model = PredictRequest.model r,
                  probe_type = PredictRequest.probe_type r, layer = PredictRequest.layer r,
                  predicted_probability = row0 ! 1\<rparr>)"
    by (simp add: predict_try_loaded[OF assms] proba_of_def respond_in_range)
  then show "predict e b
             = Inr (ok_response \<lparr>PredictResponse.model = PredictRequest.model r,
                  probe_type = PredictRequest.probe_type r, layer = PredictRequest.layer r,
                  predicted_probability = row0 ! 1\<rparr>)"
    by (rule predict_of_try)
next
  fix f x rows
  assume "predict_proba pm = Some f \<and> f (delta_of r) = Inr ([x] # rows) \<and> 0 \<le> x \<and> x \<le> 1"
  then have "predict_try e b
             = Inr (ok_response \<lparr>PredictResponse.model = PredictRequest.model r,
                  probe_type = PredictRequest.probe_type r, layer = PredictRequest.layer r,
                  predicted_probability = x\<rparr>)"
    by (simp add: predict_try_loaded[OF assms] proba_of_def respond_in_range)
  then show "predict e b
             = Inr (ok_response \<lparr>PredictResponse.model = PredictRequest.model r,
                  probe_type = PredictRequest.probe_type r, layer = PredictRequest.layer r,
                  predicted_probability = x\<rparr>)"
    by (rule predict_of_try)
next
  fix g x xs
  assume "predict_proba pm = None \<and> predict_attr pm = Some g
             \<and> g (delta_of r) = Inr (x # xs) \<and> 0 \<le> x \<and> x \<le> 1"
  then have "predict_try e b
             = Inr (ok_response \<lparr>PredictResponse.model = PredictRequest.model r,
                  probe_type = PredictRequest.probe_type r, layer = PredictRequest.layer r,
                  predicted_probability = x\<rparr>)"
    by (simp add: predict_try_loaded[OF assms] first_of_def respond_in_range)
  then show "predict e b
             = Inr (ok_response \<lparr>PredictResponse.model = PredictRequest.model r,
                  probe_type = PredictRequest.probe_type r, layer = PredictRequest.layer r,
                  predicted_probability = x\<rparr>)"
    by (rule predict_of_try)
next
  assume "predict_proba pm = None \<and> predict_attr pm = None"
  then have "predict_try e b
             = Inr \<lparr>status_code = 500,
                    body = ErrorBody ''Probe model does not support prediction''\<rparr>"
    by (simp add: predict_try_loaded[OF assms])
  then show "predict e b
             = Inr \<lparr>status_code = 500,
                    body = ErrorBody ''Probe model does not support prediction''\<rparr>"
    by (rule predict_of_try)
qed

subsection \<open>Evaluation of the examples\<close>

lemmas fs_defs = repo_def layer_node_def config_file_def proba_probe_def label_probe_def
  probes_dir_def joinpath_def parse_parts_def parse_root_def stat_def lookup_def
  utf8_len_def path_bytes_def ignored_def current_def path_exists_def is_dir_def iterdir_def
  name_def isdigit_def char_isdigit_def ascii_digit_def py_int_def
  digit_value_def get_available_layers_def discover_probes_def list_probes_def

lemmas predict_defs = predict_def predict_try_def model_file_of_def open_and_load_def
  proba_of_def first_of_def respond_def PredictResponse_init_def ok_response_def
  not_found_msg_def

lemma four_probes_files:
  "stat four_probes (model_file_of four_probes (valid_request ''m'' 0))
   = Inr (File (Loads (proba_probe [[0.1, 0.9]])))"
  "stat four_probes (model_file_of four_probes (valid_request ''m'' 1))
   = Inr (File (Loads (proba_probe [[0.7]])))"
  "stat four_probes (model_file_of four_probes (valid_request ''m'' 2))
   = Inr (File (Loads (label_probe [1])))"
  "stat four_probes (model_file_of four_probes (valid_request ''m'' 3))
   = Inr (File (Loads (Probe None None)))"
  "stat four_probes (model_file_of four_probes (valid_request ''m'' 4))
   = Inr (File (Loads (label_probe [2])))"
  by (simp_all add: four_probes_def repo_def layer_node_def config_file_def model_file_of_def
      valid_request_def probes_dir_def joinpath_def parse_parts_def stat_def lookup_def
      utf8_len_def path_bytes_def current_def py_str_small)

lemma four_probes_catalog:
  "list_probes four_probes
   = \<lparr>status_code = 200,
      body = ProbesBody [\<lparr>ProbeInfo.model = ''m'', probe_type = ''linear_probe'',
                          layers = [0, 1, 2, 3, 4]\<rparr>]\<rparr>"
  by (simp add: fs_defs four_probes_def)

lemma valid_request_fields:
  "PredictRequest.model (valid_request m l) = m"
  "PredictRequest.probe_type (valid_request m l) = ''linear_probe''"
  "PredictRequest.layer (valid_request m l) = l"
  by (simp_all add: valid_request_def)




section \<open>The catalog route\<close>

text \<open>
  Claim C1 asks that the \<open>layers\<close> of every entry of the catalog are in ascending numerical
  order, whatever the order in which the directory is iterated, so that layer directories
  \<open>2\<close> and \<open>10\<close> give \<open>[2, 10]\<close>. The code sorts the entries of the model directory as
  paths, that is by their names as strings, before it reads the names as numbers: with the
  qualifying layer directories \<open>2\<close> and \<open>10\<close> it returns \<open>[10, 2]\<close>, in either iteration
  order, and the route serves that list.
\<close>

theorem layers_sorted_by_name:
  "get_available_layers (repo [(''m'', Dir two_ten)] [])
     [''app'', ''models'', ''trained_linear_probes'', ''m''] = Inr [10, 2]
   \<and> get_available_layers (repo [(''m'', Dir (rev two_ten))] [])
       [''app'', ''models'', ''trained_linear_probes'', ''m''] = Inr [10, 2]
   \<and> list_probes (repo [(''m'', Dir two_ten)] [])
     = \<lparr>status_code = 200,
        body = ProbesBody [\<lparr>ProbeInfo.model = ''m'', probe_type = ''linear_probe'',
                            layers = [10, 2]\<rparr>]\<rparr>"
  by (simp add: fs_defs two_ten_def)

text \<open>
  Claim C7: the catalog route answers 200 with an empty list when the repository root does
  not exist; and in every catalog it returns, no entry has an empty list of layers, every
  listed layer is the number of a directory entry of the model directory that holds both
  \<open>config.json\<close> and \<open>model.pickle\<close>, and a model directory without a qualifying layer
  has no entry.
\<close>

theorem list_probes_catalog:
  "(path_exists e (probes_dir e) = Inr False
      \<longrightarrow> list_probes e = \<lparr>status_code = 200, body = ProbesBody []\<rparr>)
   \<and> (list_probes e = \<lparr>status_code = 200, body = ProbesBody probes\<rparr> \<longrightarrow>
        (\<forall>info\<in>set probes. layers info \<noteq> []
           \<and> (\<forall>l\<in>set (layers info). \<exists>layer_dir.
                 listed e (probes_dir e @ [ProbeInfo.model info]) layer_dir
                 \<and> is_dir e layer_dir = Inr True \<and> py_int (name layer_dir) = Inr l
                 \<and> path_exists e (joinpath layer_dir ''config.json'') = Inr True
                 \<and> path_exists e (joinpath layer_dir ''model.pickle'') = Inr True))
        \<and> (\<forall>model_dir. listed e (probes_dir e) model_dir \<and> is_dir e model_dir = Inr True
               \<and> get_available_layers e model_dir = Inr []
             \<longrightarrow> (\<forall>info\<in>set probes. ProbeInfo.model info \<noteq> name model_dir)))"
proof (intro conjI impI ballI allI)
  assume "path_exists e (probes_dir e) = Inr False"
  then show "list_probes e = \<lparr>status_code = 200, body = ProbesBody []\<rparr>"
    by (simp add: list_probes_def discover_probes_def)
next
  fix info
  assume lp: "list_probes e = \<lparr>status_code = 200, body = ProbesBody probes\<rparr>"
    and mem: "info \<in> set probes"
  from catalog_entry[OF lp mem] show "layers info \<noteq> []" by blast
next
  fix info l
  assume lp: "list_probes e = \<lparr>status_code = 200, body = ProbesBody probes\<rparr>"
    and mem: "info \<in> set probes"
    and l: "l \<in> set (layers info)"
  from catalog_entry[OF lp mem] obtain p where p: "listed e (probes_dir e) p"
    "ProbeInfo.model info = name p" "get_available_layers e p = Inr (layers info)" by blast
  from listed_child[OF p(1)] p(2) have peq: "p = probes_dir e @ [ProbeInfo.model info]"
    by simp
  from layers_entry[OF p(3) l] obtain q where "listed e p q" "qualifies e q l" by blast
  then show "\<exists>layer_dir. listed e (probes_dir e @ [ProbeInfo.model info]) layer_dir
                 \<and> is_dir e layer_dir = Inr True \<and> py_int (name layer_dir) = Inr l
                 \<and> path_exists e (joinpath layer_dir ''config.json'') = Inr True
                 \<and> path_exists e (joinpath layer_dir ''model.pickle'') = Inr True"
    using peq by (auto simp: qualifies_def)
next
  fix model_dir info
  assume lp: "list_probes e = \<lparr>status_code = 200, body = ProbesBody probes\<rparr>"
    and mem: "info \<in> set probes"
    and md: "listed e (probes_dir e) model_dir \<and> is_dir e model_dir = Inr True
             \<and> get_available_layers e model_dir = Inr []"
  show "ProbeInfo.model info \<noteq> name model_dir"
  proof
    assume eq: "ProbeInfo.model info = name model_dir"
    from catalog_entry[OF lp mem] obtain p where p: "listed e (probes_dir e) p"
      "ProbeInfo.model info = name p" "get_available_layers e p = Inr (layers info)"
      "layers info \<noteq> []" by blast
    from listed_child[OF p(1)] listed_child[of e "probes_dir e" model_dir] md p(2) eq
    have "p = model_dir" by metis
    with p(3,4) md show False by simp
  qed
qed

text \<open>
  The theorem at a deployment without a repository, and at a repository whose model \<open>m\<close>
  has the qualifying layers 0 to 4 and an empty layer directory \<open>5\<close>, beside a model
  directory \<open>unused\<close> without layers and a file.
\<close>

theorem list_probes_catalog_witness:
  "path_exists no_repo (probes_dir no_repo) = Inr False
   \<and> list_probes no_repo = \<lparr>status_code = 200, body = ProbesBody []\<rparr>
   \<and> list_probes four_probes
     = \<lparr>status_code = 200,
        body = ProbesBody [\<lparr>ProbeInfo.model = ''m'', probe_type = ''linear_probe'',
                            layers = [0, 1, 2, 3, 4]\<rparr>]\<rparr>
   \<and> (\<exists>layer_dir.
         listed four_probes (probes_dir four_probes @ [''m'']) layer_dir
         \<and> is_dir four_probes layer_dir = Inr True \<and> py_int (name layer_dir) = Inr 0
         \<and> path_exists four_probes (joinpath layer_dir ''config.json'') = Inr True
         \<and> path_exists four_probes (joinpath layer_dir ''model.pickle'') = Inr True)
   \<and> (\<exists>layer_dir.
         listed four_probes (probes_dir four_probes @ [''m'']) layer_dir
         \<and> is_dir four_probes layer_dir = Inr True \<and> py_int (name layer_dir) = Inr 4
         \<and> path_exists four_probes (joinpath layer_dir ''config.json'') = Inr True
         \<and> path_exists four_probes (joinpath layer_dir ''model.pickle'') = Inr True)
   \<and> listed four_probes (probes_dir four_probes)
        [''app'', ''models'', ''trained_linear_probes'', ''unused'']
   \<and> is_dir four_probes [''app'', ''models'', ''trained_linear_probes'', ''unused'']
       = Inr True
   \<and> get_available_layers four_probes [''app'', ''models'', ''trained_linear_probes'', ''unused'']
     = Inr []
   \<and> ''m'' \<noteq> name [''app'', ''models'', ''trained_linear_probes'', ''unused'']"
proof -
  have a: "path_exists no_repo (probes_dir no_repo) = Inr False"
    by (simp add: fs_defs no_repo_def)
  have u: "listed four_probes (probes_dir four_probes)
             [''app'', ''models'', ''trained_linear_probes'', ''unused'']
     \<and> is_dir four_probes [''app'', ''models'', ''trained_linear_probes'', ''unused'']
       = Inr True
     \<and> get_available_layers four_probes
          [''app'', ''models'', ''trained_linear_probes'', ''unused''] = Inr []"
    by (simp add: fs_defs four_probes_def listed_def)
  from list_probes_catalog[of no_repo "[]"] a
    list_probes_catalog[of four_probes
      "[\<lparr>ProbeInfo.model = ''m'', probe_type = ''linear_probe'', layers = [0, 1, 2, 3, 4]\<rparr>]"]
    four_probes_catalog u
  show ?thesis by simp
qed

section \<open>The prediction route\<close>







text \<open>
  Claim C3 says that a body that is not parseable as JSON is answered with the 500 of the
  generic handler. pydantic reports such a body as a \<open>ValidationError\<close> whose single error
  has an empty \<open>loc\<close>; the handler of \<open>ValidationError\<close> runs, \<open>err["loc"][-1]\<close> raises
  \<open>IndexError\<close> inside it, and the handlers beside it do not catch what it raises: \<open>predict\<close>
  returns no response, and the exception reaches the host.
\<close>

theorem predict_not_json: "predict e NotJson = Inl IndexError"
  by (simp add: predict_def predict_try_def model_validate_json_def)




text \<open>
  Claim C4: for every validated request whose artifact loads, a probe with \<open>predict_proba\<close>
  gives the probability in column 1 of row 0 of its output when the output has at least
  two columns and in column 0 of row 0 when it has one; a probe with \<open>predict\<close> alone gives
  element 0 of its output; and a probe with neither is answered with 500 and the message
  that the probe does not support prediction. The probability is returned when it lies in
  the range the response model accepts, and a probability that is returned is the element
  named.
\<close>

theorem predict_selects_probability:
  assumes "model_validate_json b = Inr r"
    and "stat e (model_file_of e r) = Inr (File (Loads pm))"
  shows "(\<forall>f row0 rows. predict_proba pm = Some f \<and> f (delta_of r) = Inr (row0 # rows)
             \<and> 2 \<le> length row0 \<and> 0 \<le> row0 ! 1 \<and> row0 ! 1 \<le> 1
           \<longrightarrow> predict e b = Inr (ok_response \<lparr>PredictResponse.model = PredictRequest.model r,
                  probe_type = PredictRequest.probe_type r, layer = PredictRequest.layer r,
                  predicted_probability = row0 ! 1\<rparr>))
        \<and> (\<forall>f x rows. predict_proba pm = Some f \<and> f (delta_of r) = Inr ([x] # rows)
             \<and> 0 \<le> x \<and> x \<le> 1
           \<longrightarrow> predict e b = Inr (ok_response \<lparr>PredictResponse.model = PredictRequest.model r,
                  probe_type = PredictRequest.probe_type r, layer = PredictRequest.layer r,
                  predicted_probability = x\<rparr>))
        \<and> (\<forall>g x xs. predict_proba pm = None \<and> predict_attr pm = Some g
             \<and> g (delta_of r) = Inr (x # xs) \<and> 0 \<le> x \<and> x \<le> 1
           \<longrightarrow> predict e b = Inr (ok_response \<lparr>PredictResponse.model = PredictRequest.model r,
                  probe_type = PredictRequest.probe_type r, layer = PredictRequest.layer r,
                  predicted_probability = x\<rparr>))
        \<and> (predict_proba pm = None \<and> predict_attr pm = None
           \<longrightarrow> predict e b = Inr \<lparr>status_code = 500,
                  body = ErrorBody ''Probe model does not support prediction''\<rparr>)
        \<and> (\<forall>resp. predict e b = Inr (ok_response resp) \<longrightarrow>
             (\<forall>f pp. predict_proba pm = Some f \<and> f (delta_of r) = Inr pp
                \<longrightarrow> (\<exists>row0 rows. pp = row0 # rows
                       \<and> ((2 \<le> length row0 \<and> predicted_probability resp = row0 ! 1)
                           \<or> row0 = [predicted_probability resp])))
             \<and> (\<forall>g pr. predict_proba pm = None \<and> predict_attr pm = Some g
                    \<and> g (delta_of r) = Inr pr
                \<longrightarrow> (\<exists>xs. pr = predicted_probability resp # xs)))"
proof -
  note s = selected_probability[OF assms]
  have r: "\<forall>resp. predict e b = Inr (ok_response resp) \<longrightarrow>
             (\<forall>f pp. predict_proba pm = Some f \<and> f (delta_of r) = Inr pp
                \<longrightarrow> (\<exists>row0 rows. pp = row0 # rows
                       \<and> ((2 \<le> length row0 \<and> predicted_probability resp = row0 ! 1)
                           \<or> row0 = [predicted_probability resp])))
             \<and> (\<forall>g pr. predict_proba pm = None \<and> predict_attr pm = Some g
                    \<and> g (delta_of r) = Inr pr
                \<longrightarrow> (\<exists>xs. pr = predicted_probability resp # xs))"
    using returned_probability[OF assms] by blast
  from s r show ?thesis
    by (intro conjI) (elim conjE, assumption)+
qed

text \<open>
  The theorem at the layers 0 to 3 of the example repository: two columns, one column,
  \<open>predict\<close> alone, and neither method.
\<close>

theorem predict_selects_probability_witness:
  "model_validate_json (valid_body ''m'' 0) = Inr (valid_request ''m'' 0)
   \<and> stat four_probes (model_file_of four_probes (valid_request ''m'' 0))
     = Inr (File (Loads (proba_probe [[0.1, 0.9]])))
   \<and> predict four_probes (valid_body ''m'' 0)
     = Inr (ok_response \<lparr>PredictResponse.model = ''m'', probe_type = ''linear_probe'',
                          layer = 0, predicted_probability = 0.9\<rparr>)
   \<and> predict four_probes (valid_body ''m'' 1)
     = Inr (ok_response \<lparr>PredictResponse.model = ''m'', probe_type = ''linear_probe'',
                          layer = 1, predicted_probability = 0.7\<rparr>)
   \<and> predict four_probes (valid_body ''m'' 2)
     = Inr (ok_response \<lparr>PredictResponse.model = ''m'', probe_type = ''linear_probe'',
                          layer = 2, predicted_probability = 1\<rparr>)
   \<and> predict four_probes (valid_body ''m'' 3)
     = Inr \<lparr>status_code = 500, body = ErrorBody ''Probe model does not support prediction''\<rparr>"
proof -
  have v: "model_validate_json (valid_body ''m'' 0) = Inr (valid_request ''m'' 0)"
    "model_validate_json (valid_body ''m'' 1) = Inr (valid_request ''m'' 1)"
    "model_validate_json (valid_body ''m'' 2) = Inr (valid_request ''m'' 2)"
    "model_validate_json (valid_body ''m'' 3) = Inr (valid_request ''m'' 3)"
    by (simp_all add: valid_body_ok)
  have "predict four_probes (valid_body ''m'' 0)
     = Inr (ok_response \<lparr>PredictResponse.model = ''m'', probe_type = ''linear_probe'',
                          layer = 0, predicted_probability = 0.9\<rparr>)"
    using predict_selects_probability[OF v(1) four_probes_files(1)]
    by (simp add: proba_probe_def valid_request_fields)
  moreover have "predict four_probes (valid_body ''m'' 1)
     = Inr (ok_response \<lparr>PredictResponse.model = ''m'', probe_type = ''linear_probe'',
                          layer = 1, predicted_probability = 0.7\<rparr>)"
    using predict_selects_probability[OF v(2) four_probes_files(2)]
    by (simp add: proba_probe_def valid_request_fields)
  moreover have "predict four_probes (valid_body ''m'' 2)
     = Inr (ok_response \<lparr>PredictResponse.model = ''m'', probe_type = ''linear_probe'',
                          layer = 2, predicted_probability = 1\<rparr>)"
    using predict_selects_probability[OF v(3) four_probes_files(3)]
    by (simp add: label_probe_def valid_request_fields)
  moreover have "predict four_probes (valid_body ''m'' 3)
     = Inr \<lparr>status_code = 500, body = ErrorBody ''Probe model does not support prediction''\<rparr>"
    using predict_selects_probability[OF v(4) four_probes_files(4)]
    by simp
  ultimately show ?thesis
    using v(1) four_probes_files(1) by simp
qed

text \<open>
  Claim C9: when the scalar taken from the prediction of the loaded artifact lies outside
  the range from 0 to 1, the constructor of the response raises the \<open>ValidationError\<close> of
  request validation, and \<open>predict\<close> answers 400 with the body of a failed validation,
  whose one detail names \<open>predicted_probability\<close>.
\<close>

theorem predict_out_of_range:
  assumes "model_validate_json b = Inr r"
    and "stat e (model_file_of e r) = Inr (File (Loads pm))"
    and "(\<exists>f pp. predict_proba pm = Some f \<and> f (delta_of r) = Inr pp \<and> proba_of pp = Inr q)
         \<or> (\<exists>g pr. predict_proba pm = None \<and> predict_attr pm = Some g
                \<and> g (delta_of r) = Inr pr \<and> first_of pr = Inr q)"
    and "q < 0 \<or> 1 < q"
  shows "\<exists>m. predict e b
              = Inr \<lparr>status_code = 400,
                     body = ValidationFailed [(LStr ''predicted_probability'', m)]\<rparr>"
proof -
  from assms(4) obtain m where
    m: "respond r q
        = Inl (ValidationError [\<lparr>loc = [LStr ''predicted_probability''], msg = m\<rparr>])"
    using respond_out_of_range by blast
  from assms(3)
  have "predict_try e b
        = Inl (ValidationError [\<lparr>loc = [LStr ''predicted_probability''], msg = m\<rparr>])"
    using m by (auto simp: predict_try_loaded[OF assms(1,2)])
  then show ?thesis
    by (auto simp: predict_def)
qed

text \<open>The theorem at layer 4 of the example repository, whose probe predicts the label 2.\<close>

theorem predict_out_of_range_witness:
  "model_validate_json (valid_body ''m'' 4) = Inr (valid_request ''m'' 4)
   \<and> stat four_probes (model_file_of four_probes (valid_request ''m'' 4))
     = Inr (File (Loads (label_probe [2])))
   \<and> predict_proba (label_probe [2]) = None
   \<and> first_of [2] = Inr 2
   \<and> (1::real) < 2
   \<and> (\<exists>m. predict four_probes (valid_body ''m'' 4)
         = Inr \<lparr>status_code = 400,
                body = ValidationFailed [(LStr ''predicted_probability'', m)]\<rparr>)"
proof -
  have v: "model_validate_json (valid_body ''m'' 4) = Inr (valid_request ''m'' 4)"
    by (simp add: valid_body_ok)
  have c: "(\<exists>f pp. predict_proba (label_probe [2]) = Some f
              \<and> f (delta_of (valid_request ''m'' 4)) = Inr pp \<and> proba_of pp = Inr 2)
         \<or> (\<exists>g pr. predict_proba (label_probe [2]) = None
                \<and> predict_attr (label_probe [2]) = Some g
                \<and> g (delta_of (valid_request ''m'' 4)) = Inr pr \<and> first_of pr = Inr 2)"
    by (simp add: label_probe_def first_of_def)
  have r: "(2::real) < 0 \<or> (1::real) < 2" by simp
  from predict_out_of_range[OF v four_probes_files(5) c r] v four_probes_files(5)
  show ?thesis
    by (simp add: label_probe_def first_of_def)
qed

text \<open>
  Claim C8: two invocations of \<open>predict\<close> with the same body, against the same artifact,
  give the same response, and so the same probability. The response depends on the
  repository only through what the path of the artifact resolves to: the two invocations
  may even run against repositories that differ elsewhere. The methods of a loaded probe
  are functions of their input here; that an unpickled object computes the same output
  twice is a property of the artifact, not of the module.
\<close>

theorem predict_deterministic:
  assumes "model_validate_json b = Inr r"
    and "stat e1 (model_file_of e1 r) = stat e2 (model_file_of e2 r)"
  shows "predict e1 b = predict e2 b"
proof -
  from assms(2)
  have ex: "path_exists e1 (model_file_of e1 r) = path_exists e2 (model_file_of e2 r)"
    and ld: "open_and_load e1 (model_file_of e1 r) = open_and_load e2 (model_file_of e2 r)"
    by (simp_all add: path_exists_def open_and_load_def)
  have "predict_try e1 b = predict_try e2 b"
  proof (cases "path_exists e2 (model_file_of e2 r)")
    case (Inl x)
    with ex assms(1) show ?thesis
      by (simp add: predict_try_def)
  next
    case (Inr found)
    with ex ld assms(1) show ?thesis
      by (cases found) (simp_all add: predict_try_def Let_def)
  qed
  then show ?thesis
    by (simp add: predict_def)
qed

text \<open>
  The theorem at two repositories with the same artifact for layer 3 of the model \<open>m\<close>,
  one with and one without \<open>config.json\<close>.
\<close>

theorem predict_deterministic_witness:
  "model_validate_json (valid_body ''m'' 3) = Inr (valid_request ''m'' 3)
   \<and> stat one_layer (model_file_of one_layer (valid_request ''m'' 3))
     = stat no_config (model_file_of no_config (valid_request ''m'' 3))
   \<and> predict one_layer (valid_body ''m'' 3) = predict no_config (valid_body ''m'' 3)"
proof -
  have v: "model_validate_json (valid_body ''m'' 3) = Inr (valid_request ''m'' 3)"
    by (simp add: valid_body_ok)
  have a: "stat one_layer (model_file_of one_layer (valid_request ''m'' 3))
           = stat no_config (model_file_of no_config (valid_request ''m'' 3))"
    by (simp add: one_layer_def no_config_def repo_def layer_node_def config_file_def
        model_file_of_def valid_request_def probes_dir_def joinpath_def parse_parts_def
        stat_def lookup_def utf8_len_def path_bytes_def current_def py_str_small)
  from predict_deterministic[OF v a] v a show ?thesis by simp
qed

text \<open>
  Claim C10: the model string of the request enters the path of the artifact as it is.
  With the model string \<open>../../outside\<close>, and with the absolute \<open>/app/outside\<close>, the
  path resolves to a file outside the probe repository, whose catalog is empty, and
  \<open>predict\<close> loads that file and answers with the probability its probe computes.
\<close>

theorem model_string_escapes_repository:
  "model_validate_json (valid_body ''../../outside'' 0) = Inr (valid_request ''../../outside'' 0)
   \<and> realpath outside (probes_dir outside) = Some [''app'', ''models'', ''trained_linear_probes'']
   \<and> realpath outside (model_file_of outside (valid_request ''../../outside'' 0))
     = Some [''app'', ''outside'', ''0'', ''model.pickle'']
   \<and> \<not> prefix [''app'', ''models'', ''trained_linear_probes'']
         [''app'', ''outside'', ''0'', ''model.pickle'']
   \<and> list_probes outside = \<lparr>status_code = 200, body = ProbesBody []\<rparr>
   \<and> predict outside (valid_body ''../../outside'' 0)
     = Inr \<lparr>status_code = 200,
            body = PredictBody \<lparr>PredictResponse.model = ''../../outside'',
                     probe_type = ''linear_probe'', layer = 0, predicted_probability = 0.9\<rparr>\<rparr>
   \<and> realpath outside (model_file_of outside (valid_request ''/app/outside'' 0))
     = Some [''app'', ''outside'', ''0'', ''model.pickle'']
   \<and> predict outside (valid_body ''/app/outside'' 0)
     = Inr \<lparr>status_code = 200,
            body = PredictBody \<lparr>PredictResponse.model = ''/app/outside'',
                     probe_type = ''linear_probe'', layer = 0, predicted_probability = 0.9\<rparr>\<rparr>"
  by (simp add: fs_defs predict_defs outside_def valid_body_ok valid_request_def py_str_small
      realpath_def)

end
